theory Spec2Isabelle
  imports Complex_Main
begin

section \<open>Values and store items\<close>

text \<open>
  The store holds schemaless items: Python dictionaries from attribute names to values.
  Three kinds of attribute value occur in the ledger: the null value (Python \<open>None\<close>),
  strings, and numbers. Amounts are exact decimals; they are modelled as rationals.
  \<open>dict.get(k)\<close> returns \<open>None\<close> for an absent key, so an absent attribute and an
  attribute holding an explicit null read the same but are different items.
\<close>

datatype pyval = PNone | PStr string | PNum rat

type_synonym item = "string \<rightharpoonup> pyval"

definition item_get :: "item \<Rightarrow> string \<Rightarrow> pyval" where
  "item_get d k = (case d k of None \<Rightarrow> PNone | Some v \<Rightarrow> v)"

fun truthy :: "pyval \<Rightarrow> bool" where
  "truthy PNone = False"
| "truthy (PStr s) = (s \<noteq> [])"
| "truthy (PNum n) = (n \<noteq> 0)"

fun opt_str :: "string option \<Rightarrow> pyval" where
  "opt_str None = PNone"
| "opt_str (Some s) = PStr s"

section \<open>Record Store\<close>

text \<open>
  A table is its key schema together with its items. \<open>put_item\<close> is an upsert: an item
  with the same key attributes is replaced, otherwise the item is added.
\<close>

record table =
  key_schema :: "string list"
  items :: "item list"

definition key_of :: "string list \<Rightarrow> item \<Rightarrow> pyval option list" where
  "key_of ks it = map it ks"

fun upsert :: "string list \<Rightarrow> item \<Rightarrow> item list \<Rightarrow> item list" where
  "upsert ks x [] = [x]"
| "upsert ks x (y # ys) =
     (if key_of ks y = key_of ks x then x # ys else y # upsert ks x ys)"

definition put_item :: "item \<Rightarrow> table \<Rightarrow> table" where
  "put_item x t = t\<lparr>items := upsert (key_schema t) x (items t)\<rparr>"

record member =
  card_id :: string
  name :: string
  top_up_date :: string
  balance :: rat
  created_at :: string

type_synonym members = "string \<rightharpoonup> member"

section \<open>Numbers and errors\<close>

text \<open>
  A Python number handed to the store client is either a float or a number the client
  can serialise (a \<open>Decimal\<close> or an integer). Both carry their value as a rational;
  every finite float is one, and the handlers only negate a float, take its absolute
  value and compare it with zero, all of which are exact. The number inputs of the forms
  are declared with float bounds and return floats. The store client's serialiser raises
  \<open>TypeError\<close> on a float before a request is sent; numbers read from the store are
  decimals.
\<close>

datatype number = Float rat | Dec rat

text \<open>
  What a handler or a migration step reports instead of a result. The handlers show a
  message for each of the first ten: missing required fields, Members table not
  initialised, card id already exists (\<open>DuplicateMember\<close>), adding the member failed,
  no member selected, amount must not be zero (\<open>ZeroAmount\<close>), database not
  initialised, creating the transaction record failed, updating the balance failed,
  deleting the member failed. The others are Python exceptions, and \<open>MissingMemberId\<close>
  is the skip of the v2 migration script.
\<close>

datatype error =
    RequiredFields
  | MembersTableUninitialised
  | DuplicateMember
  | AddMemberFailed
  | NoMemberSelected
  | ZeroAmount
  | DatabaseUninitialised
  | CreateTransactionFailed
  | UpdateBalanceFailed
  | DeleteMemberFailed
  | AttributeError
  | TypeError
  | InvalidOperation
  | MissingMemberId

section \<open>AWSClient (aws\_utils.py)\<close>

text \<open>
  Every method wraps one store call in \<open>try ... except ClientError\<close>. Whether the call
  raises \<open>ClientError\<close> is not decided by the program, so each method takes a flag
  \<open>ok\<close>: \<open>True\<close> when the store call returns, \<open>False\<close> when it raises
  \<open>ClientError\<close>. Generated identifiers (\<open>uuid.uuid4()\<close>) and the clock
  (\<open>datetime.now().isoformat()\<close>) are arguments as well. A method that hands a float
  to the store client does not reach the store: the \<open>TypeError\<close> of the serialiser is
  not a \<open>ClientError\<close>, passes the \<open>except\<close> clause and leaves the method, which
  is the result \<open>Inl TypeError\<close>.
\<close>

definition add_member ::
  "bool \<Rightarrow> string \<Rightarrow> members \<Rightarrow> string \<Rightarrow> string \<Rightarrow> string \<Rightarrow> number
     \<Rightarrow> error + bool \<times> members" where
  "add_member ok now tbl cid nm date bal =
     (case bal of
        Float x \<Rightarrow> Inl TypeError
      | Dec b \<Rightarrow>
          Inr (if ok then
                 (True, tbl(cid \<mapsto> \<lparr>card_id = cid, name = nm, top_up_date = date,
                                      balance = b, created_at = now\<rparr>))
               else (False, tbl)))"

definition get_member :: "bool \<Rightarrow> members \<Rightarrow> string \<Rightarrow> member option" where
  "get_member ok tbl cid = (if ok then tbl cid else None)"

definition delete_member :: "bool \<Rightarrow> members \<Rightarrow> string \<Rightarrow> bool \<times> members" where
  "delete_member ok tbl cid = (if ok then (True, tbl(cid := None)) else (False, tbl))"

text \<open>
  \<open>update_member_balance\<close> sends the additive update \<open>SET balance = balance + :val\<close>.
  The store evaluates it on the stored item; on a key with no item there is no \<open>balance\<close>
  attribute to add to, the store rejects the expression and the method returns \<open>None\<close>.
\<close>

definition update_member_balance ::
  "bool \<Rightarrow> members \<Rightarrow> string \<Rightarrow> number \<Rightarrow> error + rat option \<times> members" where
  "update_member_balance ok tbl cid amount =
     (case amount of
        Float x \<Rightarrow> Inl TypeError
      | Dec a \<Rightarrow>
          Inr (case tbl cid of
                 None \<Rightarrow> (None, tbl)
               | Some m \<Rightarrow>
                   if ok then
                     (Some (balance m + a), tbl(cid \<mapsto> m\<lparr>balance := balance m + a\<rparr>))
                   else (None, tbl)))"

definition add_transaction ::
  "bool \<Rightarrow> string \<Rightarrow> string \<Rightarrow> table \<Rightarrow> string \<Rightarrow> number \<Rightarrow> string option \<Rightarrow> string option
     \<Rightarrow> error + string option \<times> table" where
  "add_transaction ok transaction_id now tbl member_id amount signature_key service_notes =
     (case amount of
        Float x \<Rightarrow> Inl TypeError
      | Dec a \<Rightarrow>
          Inr (if ok then
                 (Some transaction_id,
                  put_item [''transaction_id'' \<mapsto> PStr transaction_id,
                            ''member_id'' \<mapsto> PStr member_id,
                            ''amount'' \<mapsto> PNum a,
                            ''timestamp'' \<mapsto> PStr now,
                            ''signature_s3_key'' \<mapsto> opt_str signature_key,
                            ''service_notes'' \<mapsto> opt_str service_notes] tbl)
               else (None, tbl)))"

definition get_member_transactions :: "bool \<Rightarrow> table \<Rightarrow> string \<Rightarrow> item list" where
  "get_member_transactions ok tbl member_id =
     (if ok then filter (\<lambda>it. it ''member_id'' = Some (PStr member_id)) (items tbl) else [])"

definition upload_signature :: "bool \<Rightarrow> string \<Rightarrow> string \<Rightarrow> string option" where
  "upload_signature ok blob_uuid member_id =
     (if ok then Some (''signatures/'' @ member_id @ ''/'' @ blob_uuid @ ''.png'') else None)"

section \<open>Session state and the environment of a request\<close>

text \<open>
  The application keeps, per session, the handles of the two tables (absent when the
  client could not be initialised) and the member selected on the dashboard, a cached copy
  of a Members item. The tables are modelled by their contents. \<open>blobs\<close> lists the keys
  written to the blob store. The flags that only steer the forms (edit mode, pending
  delete confirmation) are not part of the ledger and are left out.

  \<open>env\<close> collects what one request receives from outside the program: for each store call
  whether it returns or raises, the identifiers generated and the clock readings.
\<close>

record session =
  members_table :: "members option"
  transactions_table :: "table option"
  current_member :: "member option"
  blobs :: "string list"

record env =
  get_ok :: bool
  put_ok :: bool
  tx_put_ok :: bool
  update_ok :: bool
  delete_ok :: bool
  query_ok :: bool
  upload_ok :: bool
  uuid :: string
  blob_uuid :: string
  member_now :: string
  now :: string

section \<open>Request handlers (app.py)\<close>

subsection \<open>Adding a member\<close>

text \<open>
  The note attached to the first transaction of a member is the literal of the source,
  four CJK characters meaning "initial top-up", here as its UTF-8 bytes.
\<close>

definition initial_top_up_note :: string where
  "initial_top_up_note =
     [CHR 0xE5, CHR 0x88, CHR 0x9D, CHR 0xE5, CHR 0xA7, CHR 0x8B,
      CHR 0xE5, CHR 0x85, CHR 0x85, CHR 0xE5, CHR 0x80, CHR 0xBC]"

text \<open>
  The initial balance is the float of the form's number input and goes to \<open>add_member\<close>
  and \<open>add_transaction\<close> as it is. An exception that leaves a method leaves the
  handler too, with what was written before it. The result of \<open>add_transaction\<close> is
  not looked at.
\<close>

definition add_member_form ::
  "session \<Rightarrow> env \<Rightarrow> string \<Rightarrow> string \<Rightarrow> string \<Rightarrow> rat \<Rightarrow> (error + unit) \<times> session" where
  "add_member_form s e cid nm date initial_balance =
     (if cid = [] \<or> nm = [] then (Inl RequiredFields, s)
      else
        case members_table s of
          None \<Rightarrow> (Inl MembersTableUninitialised, s)
        | Some mt \<Rightarrow>
            (case get_member (get_ok e) mt cid of
               Some existing_member \<Rightarrow> (Inl DuplicateMember, s)
             | None \<Rightarrow>
                 (case add_member (put_ok e) (member_now e) mt cid nm date
                         (Float initial_balance) of
                    Inl err \<Rightarrow> (Inl err, s)
                  | Inr (False, mt') \<Rightarrow> (Inl AddMemberFailed, s)
                  | Inr (True, mt') \<Rightarrow>
                      (case transactions_table s of
                         None \<Rightarrow> (Inr (), s\<lparr>members_table := Some mt'\<rparr>)
                       | Some tt \<Rightarrow>
                           (case add_transaction (tx_put_ok e) (uuid e) (now e) tt cid
                                   (Float initial_balance) None (Some initial_top_up_note) of
                              Inl err \<Rightarrow> (Inl err, s\<lparr>members_table := Some mt'\<rparr>)
                            | Inr (transaction_id, tt') \<Rightarrow>
                                (Inr (),
                                 s\<lparr>members_table := Some mt',
                                   transactions_table := Some tt'\<rparr>))))))"

subsection \<open>Processing a transaction\<close>

datatype transaction_type = Charge | TopUp

definition form_amount :: "transaction_type \<Rightarrow> rat \<Rightarrow> rat" where
  "form_amount ty entered = (case ty of Charge \<Rightarrow> - \<bar>entered\<bar> | TopUp \<Rightarrow> \<bar>entered\<bar>)"

text \<open>
  \<open>process_transaction\<close> is the body run when the form is submitted, for the selected
  member and the signed amount, a float. \<open>signed\<close> says whether the canvas delivered
  image data. A signature is uploaded only for a charge; the blob key it returns, if any,
  goes into the transaction. The amount goes to \<open>add_transaction\<close> and
  \<open>update_member_balance\<close> as the float it is.
\<close>

definition process_transaction ::
  "session \<Rightarrow> env \<Rightarrow> member \<Rightarrow> transaction_type \<Rightarrow> rat \<Rightarrow> string \<Rightarrow> bool
     \<Rightarrow> (error + rat) \<times> session" where
  "process_transaction s e mem ty amount service_notes signed =
     (if amount = 0 then (Inl ZeroAmount, s)
      else
        case (members_table s, transactions_table s) of
          (Some mt, Some tt) \<Rightarrow>
            (let signature_key =
                   (if ty = Charge \<and> signed
                    then upload_signature (upload_ok e) (blob_uuid e) (card_id mem) else None);
                 s1 = (case signature_key of
                         None \<Rightarrow> s | Some k \<Rightarrow> s\<lparr>blobs := blobs s @ [k]\<rparr>)
             in case add_transaction (tx_put_ok e) (uuid e) (now e) tt (card_id mem)
                       (Float amount) signature_key (Some service_notes) of
                  Inl err \<Rightarrow> (Inl err, s1)
                | Inr (transaction_id, tt') \<Rightarrow>
                    (let s2 = s1\<lparr>transactions_table := Some tt'\<rparr>
                     in if transaction_id \<noteq> None \<and> transaction_id \<noteq> Some [] then
                          (case update_member_balance (update_ok e) mt (card_id mem)
                                  (Float amount) of
                             Inl err \<Rightarrow> (Inl err, s2)
                           | Inr (Some new_balance, mt') \<Rightarrow>
                               (Inr new_balance,
                                s2\<lparr>members_table := Some mt',
                                   current_member := Some (mem\<lparr>balance := new_balance\<rparr>)\<rparr>)
                           | Inr (None, mt') \<Rightarrow> (Inl UpdateBalanceFailed, s2))
                        else (Inl CreateTransactionFailed, s2)))
        | _ \<Rightarrow> (Inl DatabaseUninitialised, s))"

definition transaction_form ::
  "session \<Rightarrow> env \<Rightarrow> transaction_type \<Rightarrow> rat \<Rightarrow> string \<Rightarrow> bool \<Rightarrow> (error + rat) \<times> session" where
  "transaction_form s e ty entered service_notes signed =
     (case current_member s of
        None \<Rightarrow> (Inl NoMemberSelected, s)
      | Some mem \<Rightarrow> process_transaction s e mem ty (form_amount ty entered) service_notes signed)"

subsection \<open>Deleting a member\<close>

text \<open>
  After the member item is deleted the handler queries the member's transactions and, for
  each, calls \<open>delete_transaction\<close> on the client. \<open>AWSClient\<close> defines no such method:
  the first iteration raises \<open>AttributeError\<close> before any store call, and an empty
  query result leaves the loop without a call.
\<close>

fun delete_transactions :: "table \<Rightarrow> item list \<Rightarrow> error + table" where
  "delete_transactions tt [] = Inr tt"
| "delete_transactions tt (transaction # rest) = Inl AttributeError"

definition confirm_delete :: "session \<Rightarrow> env \<Rightarrow> string \<Rightarrow> (error + unit) \<times> session" where
  "confirm_delete s e cid =
     (case members_table s of
        None \<Rightarrow> (Inl MembersTableUninitialised, s)
      | Some mt \<Rightarrow>
          (case delete_member (delete_ok e) mt cid of
             (False, mt') \<Rightarrow> (Inl DeleteMemberFailed, s)
           | (True, mt') \<Rightarrow>
               (let s1 = s\<lparr>members_table := Some mt'\<rparr>
                in case transactions_table s1 of
                     None \<Rightarrow> (Inr (), s1)
                   | Some tt \<Rightarrow>
                       (case delete_transactions tt
                               (get_member_transactions (query_ok e) tt cid) of
                          Inl err \<Rightarrow> (Inl err, s1)
                        | Inr tt' \<Rightarrow> (Inr (), s1\<lparr>transactions_table := Some tt'\<rparr>)))))"

definition query_member_transactions :: "session \<Rightarrow> env \<Rightarrow> string \<Rightarrow> item list" where
  "query_member_transactions s e cid =
     (case transactions_table s of
        None \<Rightarrow> []
      | Some tt \<Rightarrow> get_member_transactions (query_ok e) tt cid)"

section \<open>Migration scripts (migrate\_fixed\_v2.py, migrate\_fixed\_v3.py)\<close>

subsection \<open>Python strings and conversions\<close>

text \<open>
  \<open>str_split c s\<close> is \<open>s.split(c)\<close> for a one-character separator and
  \<open>str_contains n s\<close> is \<open>n in s\<close>. Strings are byte lists here; the identifiers
  and blob keys of the ledger are ASCII, where bytes and Python's characters coincide.
\<close>

fun str_split :: "char \<Rightarrow> string \<Rightarrow> string list" where
  "str_split c [] = [[]]"
| "str_split c (x # xs) =
     (if x = c then [] # str_split c xs
      else (case str_split c xs of [] \<Rightarrow> [[x]] | p # ps \<Rightarrow> (x # p) # ps))"

fun str_contains :: "string \<Rightarrow> string \<Rightarrow> bool" where
  "str_contains n [] = (n = [])"
| "str_contains n (x # xs) = (take (length n) (x # xs) = n \<or> str_contains n xs)"

text \<open>
  Two conversions of the Python library are parameters of the model: how \<open>str\<close> prints
  a decimal number, and how \<open>Decimal\<close> reads a string (\<open>None\<close> when it raises
  \<open>InvalidOperation\<close>). \<open>Decimal(str(d))\<close> of a decimal \<open>d\<close> is \<open>d\<close>.
\<close>

record python =
  str_num :: "rat \<Rightarrow> string"
  decimal_str :: "string \<Rightarrow> rat option"

fun py_str :: "python \<Rightarrow> pyval \<Rightarrow> string" where
  "py_str py PNone = ''None''"
| "py_str py (PStr s) = s"
| "py_str py (PNum n) = str_num py n"

fun to_decimal :: "python \<Rightarrow> pyval \<Rightarrow> error + rat" where
  "to_decimal py PNone = Inr 0"
| "to_decimal py (PNum n) = Inr n"
| "to_decimal py (PStr s) =
     (case decimal_str py s of None \<Rightarrow> Inl InvalidOperation | Some d \<Rightarrow> Inr d)"

definition strip_none :: "item \<Rightarrow> item" where
  "strip_none d = (\<lambda>k. case d k of Some PNone \<Rightarrow> None | v \<Rightarrow> v)"

subsection \<open>Owner resolution of migrate\_fixed\_v3.py\<close>

text \<open>
  \<open>first8\<close> is the slice \<open>transaction_id[:8]\<close>, which raises \<open>TypeError\<close> on
  anything but a string. The test \<open>signature_s3_key and 'signatures/' in signature_s3_key\<close>
  is false on \<open>None\<close>, on the empty string and on the number zero, and raises
  \<open>TypeError\<close> on any other number.
\<close>

fun first8 :: "pyval \<Rightarrow> error + string" where
  "first8 (PStr t) = Inr (take 8 t)"
| "first8 v = Inl TypeError"

definition unknown_member_id :: "pyval \<Rightarrow> error + pyval" where
  "unknown_member_id transaction_id =
     (case first8 transaction_id of
        Inl err \<Rightarrow> Inl err
      | Inr t \<Rightarrow> Inr (PStr (''unknown_'' @ t)))"

definition resolve_member_id_v3 :: "item \<Rightarrow> error + pyval" where
  "resolve_member_id_v3 it =
     (let member_id = item_get it ''member_id'';
          signature_s3_key = item_get it ''signature_s3_key'';
          transaction_id = item_get it ''transaction_id''
      in if member_id = PNone then
           (case signature_s3_key of
              PStr k \<Rightarrow>
                if k \<noteq> [] \<and> str_contains ''signatures/'' k then
                  (let parts = str_split CHR ''/'' k
                   in if length parts \<ge> 2 then Inr (PStr (parts ! 1)) else Inr member_id)
                else unknown_member_id transaction_id
            | PNum n \<Rightarrow> if n = 0 then unknown_member_id transaction_id else Inl TypeError
            | PNone \<Rightarrow> unknown_member_id transaction_id)
         else Inr member_id)"

subsection \<open>Building and writing the new item\<close>

text \<open>
  Both scripts build the new item the same way from the resolved owner: a generated
  transaction id when the item has none, the amount as a decimal (zero when absent), the
  item's timestamp or the current time, and the signature key and notes as they are;
  attributes whose value is \<open>None\<close> are then removed.
\<close>

definition new_item :: "python \<Rightarrow> env \<Rightarrow> pyval \<Rightarrow> item \<Rightarrow> error + item" where
  "new_item py e member_id it =
     (let amount = item_get it ''amount'';
          service_notes = item_get it ''service_notes'';
          signature_s3_key = item_get it ''signature_s3_key'';
          timestamp = item_get it ''timestamp'';
          transaction_id =
            (if \<not> truthy (item_get it ''transaction_id'') then PStr (uuid e)
             else item_get it ''transaction_id'')
      in case to_decimal py amount of
           Inl err \<Rightarrow> Inl err
         | Inr dec \<Rightarrow>
             Inr (strip_none
                   [''member_id'' \<mapsto> PStr (py_str py member_id),
                    ''transaction_id'' \<mapsto> PStr (py_str py transaction_id),
                    ''amount'' \<mapsto> PNum dec,
                    ''timestamp'' \<mapsto> (if truthy timestamp then timestamp else PStr (now e)),
                    ''signature_s3_key'' \<mapsto> signature_s3_key,
                    ''service_notes'' \<mapsto> service_notes]))"

definition migrate_item_v3 :: "python \<Rightarrow> env \<Rightarrow> item \<Rightarrow> error + item" where
  "migrate_item_v3 py e it =
     (case resolve_member_id_v3 it of
        Inl err \<Rightarrow> Inl err
      | Inr member_id \<Rightarrow> new_item py e member_id it)"

definition migrate_item_v2 :: "python \<Rightarrow> env \<Rightarrow> item \<Rightarrow> error + item" where
  "migrate_item_v2 py e it =
     (let member_id = item_get it ''membe...''
      in if \<not> truthy member_id then Inl MissingMemberId else new_item py e member_id it)"

text \<open>
  The loop over the scanned items. The state is the new table with the two counters
  \<open>migrated_count\<close> and \<open>errors\<close>; \<open>envs i\<close> is the environment of the \<open>i\<close>-th
  iteration. An item whose processing raises, whose owner is missing (v2) or whose write
  fails adds one to \<open>errors\<close> and the loop goes on.
\<close>

fun migrate_loop ::
  "(env \<Rightarrow> item \<Rightarrow> error + item) \<Rightarrow> (nat \<Rightarrow> env) \<Rightarrow> nat \<Rightarrow> item list
     \<Rightarrow> table \<times> nat \<times> nat \<Rightarrow> table \<times> nat \<times> nat" where
  "migrate_loop step envs i [] st = st"
| "migrate_loop step envs i (it # rest) (new_table, migrated_count, errors) =
     (case step (envs i) it of
        Inl err \<Rightarrow> migrate_loop step envs (Suc i) rest (new_table, migrated_count, Suc errors)
      | Inr x \<Rightarrow>
          if tx_put_ok (envs i) then
            migrate_loop step envs (Suc i) rest (put_item x new_table, Suc migrated_count, errors)
          else migrate_loop step envs (Suc i) rest (new_table, migrated_count, Suc errors))"

definition migrate_transactions_v3 ::
  "python \<Rightarrow> (nat \<Rightarrow> env) \<Rightarrow> item list \<Rightarrow> table \<Rightarrow> table \<times> nat \<times> nat" where
  "migrate_transactions_v3 py envs old_items new_table =
     migrate_loop (migrate_item_v3 py) envs 0 old_items (new_table, 0, 0)"

definition migrate_transactions_v2 ::
  "python \<Rightarrow> (nat \<Rightarrow> env) \<Rightarrow> item list \<Rightarrow> table \<Rightarrow> table \<times> nat \<times> nat" where
  "migrate_transactions_v2 py envs old_items new_table =
     migrate_loop (migrate_item_v2 py) envs 0 old_items (new_table, 0, 0)"

section \<open>The ledger as a derived view\<close>

text \<open>
  The amount of a transaction item, the items owned by a member, and the sum of the
  amounts of a member's transactions.
\<close>

definition amount_of :: "item \<Rightarrow> rat" where
  "amount_of it = (case it ''amount'' of Some (PNum a) \<Rightarrow> a | _ \<Rightarrow> 0)"

definition owned_by :: "string \<Rightarrow> item \<Rightarrow> bool" where
  "owned_by cid it = (it ''member_id'' = Some (PStr cid))"

definition ledger_sum :: "table \<Rightarrow> string \<Rightarrow> rat" where
  "ledger_sum tt cid = sum_list (map amount_of (filter (owned_by cid) (items tt)))"

text \<open>
  One submission of the transaction form: its environment, the transaction type, the
  amount entered, the notes and whether a signature was drawn. \<open>apply_transactions\<close>
  runs submissions one after the other and yields the final session when each of them
  succeeded.
\<close>

type_synonym submission = "env \<times> transaction_type \<times> rat \<times> string \<times> bool"

fun apply_transactions :: "session \<Rightarrow> submission list \<Rightarrow> session option" where
  "apply_transactions s [] = Some s"
| "apply_transactions s ((e, ty, entered, service_notes, signed) # cs) =
     (case transaction_form s e ty entered service_notes signed of
        (Inr new_balance, s') \<Rightarrow> apply_transactions s' cs
      | (Inl err, s') \<Rightarrow> None)"

section \<open>Owner resolution as the specification words it\<close>

text \<open>
  The specification resolves the owner of a legacy item in three steps: the explicit
  member field when present and non-empty; otherwise the owner segment of a signature key
  of the form \<open>signatures/<owner_id>/<blob_name>\<close>; otherwise \<open>unknown_\<close> followed by
  the first eight characters of the transaction id.
\<close>

definition follows_convention :: "string \<Rightarrow> bool" where
  "follows_convention k =
     (case str_split CHR ''/'' k of
        [p, owner, blob] \<Rightarrow> p = ''signatures'' \<and> owner \<noteq> [] \<and> blob \<noteq> []
      | _ \<Rightarrow> False)"

definition spec_resolve_owner :: "item \<Rightarrow> pyval" where
  "spec_resolve_owner it =
     (let placeholder =
            (case item_get it ''transaction_id'' of
               PStr t \<Rightarrow> PStr (''unknown_'' @ take 8 t) | v \<Rightarrow> PNone);
          from_signature =
            (case item_get it ''signature_s3_key'' of
               PStr k \<Rightarrow>
                 if follows_convention k then PStr (str_split CHR ''/'' k ! 1) else placeholder
             | v \<Rightarrow> placeholder)
      in case item_get it ''member_id'' of
           PStr m \<Rightarrow> if m \<noteq> [] then PStr m else from_signature
         | v \<Rightarrow> from_signature)"

section \<open>Keys of a table and of a migration run\<close>

text \<open>
  The keys of the items of a table, in order. \<open>step_keys\<close> is the set of keys of the
  new items that a migration step builds from a list of legacy items, and a step is
  \<open>key_stable\<close> at an item when neither its success nor the key of what it builds
  depends on the environment (generated identifiers, clock, store failures).
\<close>

definition table_keys :: "table \<Rightarrow> pyval option list list" where
  "table_keys t = map (key_of (key_schema t)) (items t)"

definition step_keys ::
  "string list \<Rightarrow> (env \<Rightarrow> item \<Rightarrow> error + item) \<Rightarrow> env \<Rightarrow> item list
     \<Rightarrow> pyval option list set" where
  "step_keys ks step e xs = {k. \<exists>it \<in> set xs. \<exists>x. step e it = Inr x \<and> key_of ks x = k}"

definition key_stable ::
  "string list \<Rightarrow> (env \<Rightarrow> item \<Rightarrow> error + item) \<Rightarrow> item \<Rightarrow> bool" where
  "key_stable ks step it =
     (\<forall>e e'. map_sum (\<lambda>err. ()) (key_of ks) (step e it)
              = map_sum (\<lambda>err. ()) (key_of ks) (step e' it))"

section \<open>Example data\<close>

text \<open>
  Concrete sessions, members and items at which the properties below are evaluated:
  an environment in which every store call succeeds, a session with empty tables, a
  member \<open>M1\<close> with one signed debit, and a member record \<open>G9\<close> that is not in
  the Members table.
\<close>

definition ex_env :: env where
  "ex_env = \<lparr>get_ok = True, put_ok = True, tx_put_ok = True, update_ok = True,
             delete_ok = True, query_ok = True, upload_ok = True, uuid = ''u1'',
             blob_uuid = ''b1'', member_now = ''2024-01-01T00:00:00'',
             now = ''2024-01-01T00:00:01''\<rparr>"

definition ann :: member where
  "ann = \<lparr>card_id = ''M1'', name = ''Ann'', top_up_date = ''2023-05-01'', balance = 500,
          created_at = ''2023-05-01T10:00:00''\<rparr>"


definition empty_ledger :: table where
  "empty_ledger = \<lparr>key_schema = [''transaction_id''], items = []\<rparr>"

definition fresh_session :: session where
  "fresh_session = \<lparr>members_table = Some Map.empty, transactions_table = Some empty_ledger,
                    current_member = None, blobs = []\<rparr>"

definition debit :: item where
  "debit = [''transaction_id'' \<mapsto> PStr ''t1'', ''member_id'' \<mapsto> PStr ''M1'',
            ''amount'' \<mapsto> PNum (- 30), ''timestamp'' \<mapsto> PStr ''2024-02-01T09:00:00'',
            ''signature_s3_key'' \<mapsto> PStr ''signatures/M1/b0.png'',
            ''service_notes'' \<mapsto> PStr ''massage'']"

definition ann_session :: session where
  "ann_session = \<lparr>members_table = Some [''M1'' \<mapsto> ann],
                  transactions_table = Some \<lparr>key_schema = [''transaction_id''], items = [debit]\<rparr>,
                  current_member = None, blobs = [''signatures/M1/b0.png'']\<rparr>"

text \<open>
  Legacy items: the recovery scenario of the specification (no member field, a signature
  key naming the owner), a well-formed item, an item with neither member field nor
  signature key and an item that names its owner the way the v2 script reads it; the
  empty table of the new schema; and
  a Python whose two conversions are never reached on these items.
\<close>

definition legacy_recover :: item where
  "legacy_recover = [''transaction_id'' \<mapsto> PStr ''t1'', ''amount'' \<mapsto> PNum (- 50),
                     ''signature_s3_key'' \<mapsto> PStr ''signatures/00042/sig.png'']"

definition legacy_plain :: item where
  "legacy_plain = [''transaction_id'' \<mapsto> PStr ''abcdef12-0000'', ''member_id'' \<mapsto> PStr ''00011'',
                   ''amount'' \<mapsto> PNum 100, ''timestamp'' \<mapsto> PStr ''2023-06-01T12:00:00'']"

definition legacy_bare :: item where
  "legacy_bare = [''transaction_id'' \<mapsto> PStr ''abcdef12-3456'', ''amount'' \<mapsto> PNum 20]"

definition legacy_v2 :: item where
  "legacy_v2 = [''transaction_id'' \<mapsto> PStr ''t7'', ''membe...'' \<mapsto> PStr ''00011'',
                ''amount'' \<mapsto> PNum 40, ''service_notes'' \<mapsto> PNone]"

definition new_schema_table :: table where
  "new_schema_table = \<lparr>key_schema = [''member_id'', ''transaction_id''], items = []\<rparr>"

definition ex_python :: python where
  "ex_python = \<lparr>str_num = (\<lambda>n. ''0''), decimal_str = (\<lambda>s. None)\<rparr>"

text \<open>
  The end-to-end scenario of the specification: member \<open>M1\<close> with an initial balance
  of 100 is charged 30 with a signature. \<open>m1_session\<close> is the session in which the
  member and its initial transaction are stored and the member is selected.
\<close>

definition debit_submission :: submission where
  "debit_submission = (ex_env\<lparr>uuid := ''u2''\<rparr>, Charge, 30, ''massage'', True)"

definition m1_member :: member where
  "m1_member = \<lparr>card_id = ''M1'', name = ''Ann'', top_up_date = ''2024-01-01'', balance = 100,
                created_at = ''2024-01-01T00:00:00''\<rparr>"

definition top_up :: item where
  "top_up = [''transaction_id'' \<mapsto> PStr ''u1'', ''member_id'' \<mapsto> PStr ''M1'',
             ''amount'' \<mapsto> PNum 100, ''timestamp'' \<mapsto> PStr ''2024-01-01T00:00:01'',
             ''signature_s3_key'' \<mapsto> PNone, ''service_notes'' \<mapsto> PStr initial_top_up_note]"

definition m1_ledger :: table where
  "m1_ledger = \<lparr>key_schema = [''transaction_id''], items = [top_up]\<rparr>"

definition m1_session :: session where
  "m1_session = \<lparr>members_table = Some [''M1'' \<mapsto> m1_member],
                 transactions_table = Some m1_ledger,
                 current_member = Some m1_member, blobs = []\<rparr>"

section \<open>Properties of the ledger service\<close>

subsection \<open>Items written by an upsert\<close>

lemma upsert_mem: "x \<in> set (upsert ks x ys)"
  by (induction ys) auto

subsection \<open>Zero amounts\<close>

text \<open>
  Claim C3. Submitting a transaction whose amount is zero fails with \<open>ZeroAmount\<close>,
  for every member, transaction type, notes and signature, in every session and
  environment, and the session that results is the session before: no transaction is
  written, no balance is changed, no blob is stored.
\<close>

theorem zero_amount_rejected:
  "process_transaction s e mem ty 0 service_notes signed = (Inl ZeroAmount, s)"
  by (simp add: process_transaction_def)

subsection \<open>What the handlers write\<close>

text \<open>
  Both handlers hand the float of their number input to the store client. The add-member
  handler therefore never returns success and never changes the session; the transaction
  handler never returns success and changes neither table nor the selected member, only
  the list of blobs.
\<close>

lemma add_member_form_session: "snd (add_member_form s e cid nm date b) = s"
  by (simp add: add_member_form_def add_member_def split: option.splits)

lemma add_member_form_error: "\<exists>err. fst (add_member_form s e cid nm date b) = Inl err"
  by (simp add: add_member_form_def add_member_def split: option.splits)


lemma process_transaction_error:
  "fst (process_transaction s e mem ty amount service_notes signed)
     \<in> {Inl ZeroAmount, Inl DatabaseUninitialised, Inl TypeError}"
  by (simp add: process_transaction_def add_transaction_def Let_def split: option.splits)

lemma apply_transactions_none: "apply_transactions s (c # cs) = None"
proof -
  obtain e ty entered service_notes signed where c: "c = (e, ty, entered, service_notes, signed)"
    by (cases c) auto
  have "fst (transaction_form s e ty entered service_notes signed)
          \<in> {Inl NoMemberSelected, Inl ZeroAmount, Inl DatabaseUninitialised, Inl TypeError}"
    using process_transaction_error
    by (auto simp: transaction_form_def split: option.splits)
  then show ?thesis
    using c by (cases "transaction_form s e ty entered service_notes signed") auto
qed

subsection \<open>The initial transaction of a new member\<close>

text \<open>
  Claim C4, evaluated: the add-member form is submitted for card \<open>M1\<close> in a session
  with empty tables, every store call able to succeed, with initial balance 100 and with
  initial balance 0. In both cases \<open>add_member\<close> raises \<open>TypeError\<close> on the float
  balance, the handler stops and the session is as before: no member is stored and the
  query for \<open>M1\<close> returns no transaction, where the claim has a transaction of amount
  100 appended after the member is created.
\<close>

theorem initial_transaction_never_written:
  "add_member_form fresh_session ex_env ''M1'' ''Ann'' ''2024-01-01'' 100
     = (Inl TypeError, fresh_session)
   \<and> query_member_transactions
        (snd (add_member_form fresh_session ex_env ''M1'' ''Ann'' ''2024-01-01'' 100))
        ex_env ''M1'' = []
   \<and> add_member_form fresh_session ex_env ''M1'' ''Ann'' ''2024-01-01'' 0
     = (Inl TypeError, fresh_session)"
  by (simp add: add_member_form_def add_member_def fresh_session_def ex_env_def get_member_def
      query_member_transactions_def get_member_transactions_def empty_ledger_def)

subsection \<open>Transactions for a member that does not exist\<close>




subsection \<open>Deleting a member\<close>

text \<open>
  Claim C6, evaluated: member \<open>M1\<close> has one transaction, a debit of 30. Confirming the
  deletion removes the member item, then the cascade stops with \<open>AttributeError\<close> at
  the first transaction, and the query for \<open>M1\<close> still returns the debit.
\<close>

theorem delete_member_keeps_transactions:
  "fst (confirm_delete ann_session ex_env ''M1'') = Inl AttributeError
   \<and> members_table (snd (confirm_delete ann_session ex_env ''M1'')) = Some Map.empty
   \<and> map amount_of
        (query_member_transactions (snd (confirm_delete ann_session ex_env ''M1'')) ex_env ''M1'')
      = [- 30]"
  by (simp add: confirm_delete_def ann_session_def ex_env_def delete_member_def
      get_member_transactions_def query_member_transactions_def debit_def amount_of_def)

subsection \<open>A failed read in the duplicate check\<close>




section \<open>Properties of the migration\<close>

subsection \<open>Keys written by a run\<close>

lemma upsert_keys:
  "map (key_of ks) (upsert ks x ys) =
     (if key_of ks x \<in> set (map (key_of ks) ys) then map (key_of ks) ys
      else map (key_of ks) ys @ [key_of ks x])"
  by (induction ys) auto

lemma put_item_schema: "key_schema (put_item x t) = key_schema t"
  by (simp add: put_item_def)

lemma put_item_keys:
  "table_keys (put_item x t) =
     (if key_of (key_schema t) x \<in> set (table_keys t) then table_keys t
      else table_keys t @ [key_of (key_schema t) x])"
  by (simp add: put_item_def table_keys_def upsert_keys)

lemma put_item_key_set:
  "set (table_keys (put_item x t)) = insert (key_of (key_schema t) x) (set (table_keys t))"
  by (auto simp: put_item_keys)

lemma put_item_distinct: "distinct (table_keys t) \<Longrightarrow> distinct (table_keys (put_item x t))"
  by (simp add: put_item_keys)

lemma loop_schema:
  "key_schema (fst (migrate_loop step envs i xs (t, m, r))) = key_schema t"
  by (induction xs arbitrary: i t m r) (auto simp: put_item_schema split: sum.splits)

lemma loop_distinct:
  "distinct (table_keys t) \<Longrightarrow> distinct (table_keys (fst (migrate_loop step envs i xs (t, m, r))))"
  by (induction xs arbitrary: i t m r) (auto simp: put_item_distinct split: sum.splits)

lemma loop_keys_mono:
  "set (table_keys t) \<subseteq> set (table_keys (fst (migrate_loop step envs i xs (t, m, r))))"
proof (induction xs arbitrary: i t m r)
  case Nil
  then show ?case by simp
next
  case (Cons x xs)
  show ?case
  proof (cases "step (envs i) x")
    case (Inl a)
    then show ?thesis using Cons.IH by simp
  next
    case (Inr y)
    show ?thesis
    proof (cases "tx_put_ok (envs i)")
      case True
      have "set (table_keys t) \<subseteq> set (table_keys (put_item y t))"
        by (auto simp: put_item_key_set)
      also have "\<dots> \<subseteq> set (table_keys (fst (migrate_loop step envs (Suc i) xs (put_item y t, Suc m, r))))"
        by (rule Cons.IH)
      finally show ?thesis using Inr True by simp
    next
      case False
      then show ?thesis using Inr Cons.IH by simp
    qed
  qed
qed

lemma key_stable_keys:
  assumes "key_stable ks step it" and "step e it = Inr x"
  shows "\<exists>y. step e' it = Inr y \<and> key_of ks y = key_of ks x"
proof -
  from assms(1) have "map_sum (\<lambda>err. ()) (key_of ks) (step e' it) = map_sum (\<lambda>err. ()) (key_of ks) (step e it)"
    unfolding key_stable_def by blast
  with assms(2) show ?thesis by (cases "step e' it") auto
qed

lemma loop_keys_upper:
  assumes "\<forall>it \<in> set xs. key_stable (key_schema t) step it"
  shows "set (table_keys (fst (migrate_loop step envs i xs (t, m, r))))
           \<subseteq> set (table_keys t) \<union> step_keys (key_schema t) step e0 xs"
  using assms
proof (induction xs arbitrary: i t m r)
  case Nil
  then show ?case by simp
next
  case (Cons x xs)
  have sub: "step_keys (key_schema t) step e0 xs \<subseteq> step_keys (key_schema t) step e0 (x # xs)"
    by (auto simp: step_keys_def)
  have st: "\<forall>it \<in> set xs. key_stable (key_schema t) step it"
    using Cons.prems by simp
  show ?case
  proof (cases "step (envs i) x")
    case (Inl a)
    have "set (table_keys (fst (migrate_loop step envs (Suc i) xs (t, m, Suc r))))
            \<subseteq> set (table_keys t) \<union> step_keys (key_schema t) step e0 xs"
      by (rule Cons.IH [OF st])
    with sub have "set (table_keys (fst (migrate_loop step envs (Suc i) xs (t, m, Suc r))))
            \<subseteq> set (table_keys t) \<union> step_keys (key_schema t) step e0 (x # xs)"
      by blast
    with Inl show ?thesis by simp
  next
    case (Inr y)
    from Cons.prems have "key_stable (key_schema t) step x" by simp
    from key_stable_keys [OF this Inr] obtain z where z: "step e0 x = Inr z"
      "key_of (key_schema t) z = key_of (key_schema t) y" by blast
    hence ky: "key_of (key_schema t) y \<in> step_keys (key_schema t) step e0 (x # xs)"
      by (auto simp: step_keys_def)
    show ?thesis
    proof (cases "tx_put_ok (envs i)")
      case True
      have st': "\<forall>it \<in> set xs. key_stable (key_schema (put_item y t)) step it"
        using st by (simp add: put_item_schema)
      from Cons.IH [OF st', of "Suc i" "Suc m" r]
      have "set (table_keys (fst (migrate_loop step envs (Suc i) xs (put_item y t, Suc m, r))))
             \<subseteq> insert (key_of (key_schema t) y) (set (table_keys t)) \<union> step_keys (key_schema t) step e0 xs"
        by (simp add: put_item_key_set put_item_schema)
      with ky sub have "set (table_keys (fst (migrate_loop step envs (Suc i) xs (put_item y t, Suc m, r))))
             \<subseteq> set (table_keys t) \<union> step_keys (key_schema t) step e0 (x # xs)"
        by blast
      with Inr True show ?thesis by simp
    next
      case False
      have "set (table_keys (fst (migrate_loop step envs (Suc i) xs (t, m, Suc r))))
            \<subseteq> set (table_keys t) \<union> step_keys (key_schema t) step e0 xs"
        by (rule Cons.IH [OF st])
      with sub have "set (table_keys (fst (migrate_loop step envs (Suc i) xs (t, m, Suc r))))
            \<subseteq> set (table_keys t) \<union> step_keys (key_schema t) step e0 (x # xs)"
        by blast
      with Inr False show ?thesis by simp
    qed
  qed
qed

lemma loop_keys_lower:
  assumes "\<forall>it \<in> set xs. key_stable (key_schema t) step it" and "\<forall>j. tx_put_ok (envs j)"
  shows "step_keys (key_schema t) step e0 xs
           \<subseteq> set (table_keys (fst (migrate_loop step envs i xs (t, m, r))))"
  using assms(1)
proof (induction xs arbitrary: i t m r)
  case Nil
  then show ?case by (simp add: step_keys_def)
next
  case (Cons x xs)
  have st: "\<forall>it \<in> set xs. key_stable (key_schema t) step it"
    using Cons.prems by simp
  have kx: "key_stable (key_schema t) step x" using Cons.prems by simp
  have split: "step_keys (key_schema t) step e0 (x # xs)
      = step_keys (key_schema t) step e0 [x] \<union> step_keys (key_schema t) step e0 xs"
    by (auto simp: step_keys_def)
  show ?case
  proof (cases "step (envs i) x")
    case (Inl a)
    have "step_keys (key_schema t) step e0 [x] = {}"
    proof (rule ccontr)
      assume "step_keys (key_schema t) step e0 [x] \<noteq> {}"
      then obtain z where "step e0 x = Inr z" by (auto simp: step_keys_def)
      from key_stable_keys [OF kx this, of "envs i"] Inl show False by simp
    qed
    with split Cons.IH [OF st] Inl show ?thesis by simp
  next
    case (Inr y)
    have one: "step_keys (key_schema t) step e0 [x] = {key_of (key_schema t) y}"
    proof -
      from key_stable_keys [OF kx Inr, of e0] obtain z where z: "step e0 x = Inr z"
        "key_of (key_schema t) z = key_of (key_schema t) y" by blast
      then show ?thesis by (auto simp: step_keys_def)
    qed
    have st': "\<forall>it \<in> set xs. key_stable (key_schema (put_item y t)) step it"
      using st by (simp add: put_item_schema)
    have a: "step_keys (key_schema t) step e0 xs
          \<subseteq> set (table_keys (fst (migrate_loop step envs (Suc i) xs (put_item y t, Suc m, r))))"
      using Cons.IH [OF st', of "Suc i" "Suc m" r] by (simp add: put_item_schema)
    have b: "key_of (key_schema t) y
          \<in> set (table_keys (fst (migrate_loop step envs (Suc i) xs (put_item y t, Suc m, r))))"
      using loop_keys_mono [of "put_item y t" step envs "Suc i" xs "Suc m" r]
      by (auto simp: put_item_key_set)
    from a b one split Inr assms(2) show ?thesis by simp
  qed
qed


lemma new_item_key:
  "new_item py e m it = Inr x \<Longrightarrow> truthy (item_get it ''transaction_id'') \<Longrightarrow>
     key_of [''member_id'', ''transaction_id''] x =
       [Some (PStr (py_str py m)), Some (PStr (py_str py (item_get it ''transaction_id'')))]"
  by (auto simp: new_item_def Let_def key_of_def strip_none_def split: sum.splits)

lemma new_item_ok_indep:
  "new_item py e m it = Inr x \<Longrightarrow> \<exists>y. new_item py e' m it = Inr y"
  by (auto simp: new_item_def Let_def split: sum.splits)

lemma v3_key_stable:
  assumes "truthy (item_get it ''transaction_id'')"
  shows "key_stable [''member_id'', ''transaction_id''] (migrate_item_v3 py) it"
proof -
  have "map_sum (\<lambda>err. ()) (key_of [''member_id'', ''transaction_id'']) (migrate_item_v3 py e it)
      = map_sum (\<lambda>err. ()) (key_of [''member_id'', ''transaction_id'']) (migrate_item_v3 py e' it)"
    for e e'
  proof (cases "resolve_member_id_v3 it")
    case (Inl a)
    then show ?thesis by (simp add: migrate_item_v3_def)
  next
    case (Inr m)
    show ?thesis
    proof (cases "new_item py e m it")
      case (Inl a)
      have "\<exists>b. new_item py e' m it = Inl b"
      proof (cases "new_item py e' m it")
        case (Inr y)
        from new_item_ok_indep [OF this, of e] Inl show ?thesis by simp
      qed simp
      with Inl \<open>resolve_member_id_v3 it = Inr m\<close> show ?thesis
        by (auto simp: migrate_item_v3_def)
    next
      case (Inr x)
      from new_item_ok_indep [OF this, of e'] obtain y where y: "new_item py e' m it = Inr y"
        by blast
      from new_item_key [OF Inr assms] new_item_key [OF y assms]
      show ?thesis using Inr y \<open>resolve_member_id_v3 it = Inr m\<close>
        by (simp add: migrate_item_v3_def)
    qed
  qed
  then show ?thesis unfolding key_stable_def by blast
qed

subsection \<open>Running the migration again\<close>

text \<open>
  Claim C2. The legacy collection is keyed by transaction id, so every legacy item has
  one. The new table is keyed by owner and transaction id and its keys are distinct.
  Let a first run of migrate\_fixed\_v3 stop after any number \<open>n\<close> of the items, with any
  of its writes failing, and let the migration then be run again over the whole legacy
  collection with every write succeeding. The new table then has no two items with the
  same (owner id, transaction id), and it has the same keys and the same number of items as
  after one complete run on the table as it was at the start. With \<open>n\<close> the whole
  collection and no failed write this is: two runs give what one run gives.
\<close>

theorem migration_rerun_idempotent:
  assumes schema: "key_schema new_table = [''member_id'', ''transaction_id'']"
    and uniq: "distinct (table_keys new_table)"
    and ids: "\<forall>it \<in> set old_items. truthy (item_get it ''transaction_id'')"
    and ok2: "\<forall>i. tx_put_ok (envs2 i)"
    and ok3: "\<forall>i. tx_put_ok (envs3 i)"
  shows "distinct (table_keys (fst (migrate_transactions_v3 py envs2 old_items
                     (fst (migrate_transactions_v3 py envs1 (take n old_items) new_table)))))
    \<and> set (table_keys (fst (migrate_transactions_v3 py envs2 old_items
                     (fst (migrate_transactions_v3 py envs1 (take n old_items) new_table)))))
        = set (table_keys (fst (migrate_transactions_v3 py envs3 old_items new_table)))
    \<and> length (items (fst (migrate_transactions_v3 py envs2 old_items
                     (fst (migrate_transactions_v3 py envs1 (take n old_items) new_table)))))
        = length (items (fst (migrate_transactions_v3 py envs3 old_items new_table)))"
proof -
  let ?ks = "[''member_id'', ''transaction_id'']"
  let ?step = "migrate_item_v3 py"
  let ?partial = "fst (migrate_transactions_v3 py envs1 (take n old_items) new_table)"
  let ?rerun = "fst (migrate_transactions_v3 py envs2 old_items ?partial)"
  let ?single = "fst (migrate_transactions_v3 py envs3 old_items new_table)"
  let ?K = "step_keys ?ks ?step (envs3 0) old_items"
  have stable: "\<forall>it \<in> set old_items. key_stable ?ks ?step it"
    using ids v3_key_stable by blast
  have stable_take: "\<forall>it \<in> set (take n old_items). key_stable ?ks ?step it"
    using stable by (meson in_set_takeD)
  have schema_p: "key_schema ?partial = ?ks"
    by (simp add: migrate_transactions_v3_def loop_schema schema)
  have dp: "distinct (table_keys ?partial)"
    unfolding migrate_transactions_v3_def by (rule loop_distinct [OF uniq])
  have dr: "distinct (table_keys ?rerun)"
    unfolding migrate_transactions_v3_def [of py envs2] by (rule loop_distinct [OF dp])
  have ds: "distinct (table_keys ?single)"
    unfolding migrate_transactions_v3_def by (rule loop_distinct [OF uniq])
  have sub_take: "step_keys ?ks ?step (envs3 0) (take n old_items) \<subseteq> ?K"
    by (auto simp: step_keys_def dest: in_set_takeD)
  have p_upper: "set (table_keys ?partial) \<subseteq> set (table_keys new_table) \<union> ?K"
    using loop_keys_upper [of "take n old_items" new_table ?step envs1 0 0 0 "envs3 0"]
      stable_take sub_take
    by (auto simp: migrate_transactions_v3_def schema)
  have p_lower: "set (table_keys new_table) \<subseteq> set (table_keys ?partial)"
    unfolding migrate_transactions_v3_def by (rule loop_keys_mono)
  have r_eq: "set (table_keys ?rerun) = set (table_keys ?partial) \<union> ?K"
  proof
    show "set (table_keys ?rerun) \<subseteq> set (table_keys ?partial) \<union> ?K"
      using loop_keys_upper [of old_items ?partial ?step envs2 0 0 0 "envs3 0"] stable
      by (simp add: migrate_transactions_v3_def [of py envs2] schema_p)
    have "?K \<subseteq> set (table_keys ?rerun)"
      using loop_keys_lower [of old_items ?partial ?step envs2 "envs3 0" 0 0 0] stable ok2
      by (simp add: migrate_transactions_v3_def [of py envs2] schema_p)
    moreover have "set (table_keys ?partial) \<subseteq> set (table_keys ?rerun)"
      unfolding migrate_transactions_v3_def [of py envs2] by (rule loop_keys_mono)
    ultimately show "set (table_keys ?partial) \<union> ?K \<subseteq> set (table_keys ?rerun)"
      by blast
  qed
  have s_eq: "set (table_keys ?single) = set (table_keys new_table) \<union> ?K"
  proof
    show "set (table_keys ?single) \<subseteq> set (table_keys new_table) \<union> ?K"
      using loop_keys_upper [of old_items new_table ?step envs3 0 0 0 "envs3 0"] stable
      by (simp add: migrate_transactions_v3_def schema)
    have "?K \<subseteq> set (table_keys ?single)"
      using loop_keys_lower [of old_items new_table ?step envs3 "envs3 0" 0 0 0] stable ok3
      by (simp add: migrate_transactions_v3_def schema)
    moreover have "set (table_keys new_table) \<subseteq> set (table_keys ?single)"
      unfolding migrate_transactions_v3_def by (rule loop_keys_mono)
    ultimately show "set (table_keys new_table) \<union> ?K \<subseteq> set (table_keys ?single)"
      by blast
  qed
  have same: "set (table_keys ?rerun) = set (table_keys ?single)"
    using r_eq s_eq p_upper p_lower by blast
  have "length (table_keys ?rerun) = length (table_keys ?single)"
    using same dr ds by (metis distinct_card)
  hence "length (items ?rerun) = length (items ?single)"
    by (simp add: table_keys_def)
  with dr same show ?thesis by simp
qed


theorem migration_rerun_idempotent_witness:
  "key_schema new_schema_table = [''member_id'', ''transaction_id'']
   \<and> distinct (table_keys new_schema_table)
   \<and> truthy (item_get legacy_recover ''transaction_id'')
   \<and> truthy (item_get legacy_plain ''transaction_id'')
   \<and> (\<forall>i. tx_put_ok ex_env)
   \<and> length (items (fst (migrate_transactions_v3 ex_python (\<lambda>i. ex_env)
                 [legacy_recover, legacy_plain]
                 (fst (migrate_transactions_v3 ex_python (\<lambda>i. ex_env\<lparr>tx_put_ok := False\<rparr>)
                        (take 1 [legacy_recover, legacy_plain]) new_schema_table)))))
       = length (items (fst (migrate_transactions_v3 ex_python (\<lambda>i. ex_env)
                 [legacy_recover, legacy_plain] new_schema_table)))
   \<and> table_keys (fst (migrate_transactions_v3 ex_python (\<lambda>i. ex_env)
                 [legacy_recover, legacy_plain] new_schema_table))
       = [[Some (PStr ''00042''), Some (PStr ''t1'')],
          [Some (PStr ''00011''), Some (PStr ''abcdef12-0000'')]]"
proof -
  have h1: "key_schema new_schema_table = [''member_id'', ''transaction_id'']"
    by (simp add: new_schema_table_def)
  have h2: "distinct (table_keys new_schema_table)"
    by (simp add: new_schema_table_def table_keys_def)
  have h3: "\<forall>it \<in> set [legacy_recover, legacy_plain]. truthy (item_get it ''transaction_id'')"
    by (simp add: legacy_recover_def legacy_plain_def item_get_def)
  have h4: "\<forall>i. tx_put_ok ((\<lambda>i. ex_env) i)"
    by (simp add: ex_env_def)
  have keys: "table_keys (fst (migrate_transactions_v3 ex_python (\<lambda>i. ex_env)
                 [legacy_recover, legacy_plain] new_schema_table))
       = [[Some (PStr ''00042''), Some (PStr ''t1'')],
          [Some (PStr ''00011''), Some (PStr ''abcdef12-0000'')]]"
    by (simp add: migrate_transactions_v3_def migrate_item_v3_def resolve_member_id_v3_def
      new_item_def item_get_def legacy_recover_def legacy_plain_def new_schema_table_def
      ex_env_def ex_python_def unknown_member_id_def put_item_def key_of_def strip_none_def
      table_keys_def Let_def)
  from migration_rerun_idempotent [OF h1 h2 h3 h4 h4, of ex_python "\<lambda>i. ex_env\<lparr>tx_put_ok := False\<rparr>" 1]
  show ?thesis using h1 h2 h3 h4 keys by simp
qed

subsection \<open>Owner resolution\<close>

lemma str_split_nonempty: "str_split c s \<noteq> []"
  by (induction s) (auto split: list.splits)

lemma str_split_segment:
  "c \<notin> set a \<Longrightarrow> str_split c (a @ c # b) = a # str_split c b"
  by (induction a) (auto split: list.splits)

lemma str_split_two: "c \<in> set s \<Longrightarrow> 2 \<le> length (str_split c s)"
proof (induction s)
  case Nil
  then show ?case by simp
next
  case (Cons x xs)
  show ?case
  proof (cases "x = c")
    case True
    have "str_split c xs \<noteq> []" by (rule str_split_nonempty)
    then have "1 \<le> length (str_split c xs)" by (cases "str_split c xs") auto
    with True show ?thesis by simp
  next
    case False
    with Cons.prems have "c \<in> set xs" by simp
    from Cons.IH [OF this] False show ?thesis
      by (cases "str_split c xs") auto
  qed
qed

lemma str_contains_prefix: "str_contains n (n @ r)"
proof (cases "n @ r")
  case Nil
  then show ?thesis by simp
next
  case (Cons a list)
  have "take (length n) (n @ r) = n" by simp
  with Cons have "take (length n) (a # list) = n" by simp
  with Cons show ?thesis by simp
qed

lemma str_contains_set: "str_contains n s \<Longrightarrow> set n \<subseteq> set s"
proof (induction s)
  case Nil
  then show ?case by simp
next
  case (Cons x xs)
  from Cons.prems have "take (length n) (x # xs) = n \<or> str_contains n xs" by simp
  then show ?case
  proof
    assume t: "take (length n) (x # xs) = n"
    have "set (take (length n) (x # xs)) \<subseteq> set (x # xs)" by (rule set_take_subset)
    with t show ?thesis by simp
  next
    assume "str_contains n xs"
    from Cons.IH [OF this] show ?thesis by auto
  qed
qed

lemma signatures_prefix_split:
  assumes "CHR ''/'' \<notin> set owner"
  shows "str_split CHR ''/'' (''signatures/'' @ owner @ ''/'' @ blob)
           = ''signatures'' # owner # str_split CHR ''/'' blob"
proof -
  have "''signatures/'' @ owner @ ''/'' @ blob
          = ''signatures'' @ CHR ''/'' # (owner @ CHR ''/'' # blob)"
    by simp
  moreover have "CHR ''/'' \<notin> set ''signatures''" by simp
  ultimately have "str_split CHR ''/'' (''signatures/'' @ owner @ ''/'' @ blob)
      = ''signatures'' # str_split CHR ''/'' (owner @ CHR ''/'' # blob)"
    using str_split_segment by metis
  with str_split_segment [OF assms] show ?thesis by simp
qed

text \<open>
  Claim C7, as stated, at a concrete input: a legacy item with no member field whose
  signature key is \<open>archive/signatures/00042/sig.png\<close>. The key does not have the form
  \<open>signatures/<owner_id>/<blob_name>\<close>, so the claim's order of resolution ends at the
  placeholder \<open>unknown_t1\<close>; the script finds \<open>signatures/\<close> inside the key and takes
  the second segment, the owner \<open>signatures\<close>.
\<close>

theorem owner_resolution_mismatch:
  "resolve_member_id_v3 [''transaction_id'' \<mapsto> PStr ''t1'',
        ''signature_s3_key'' \<mapsto> PStr ''archive/signatures/00042/sig.png'']
     = Inr (PStr ''signatures'')
   \<and> spec_resolve_owner [''transaction_id'' \<mapsto> PStr ''t1'',
        ''signature_s3_key'' \<mapsto> PStr ''archive/signatures/00042/sig.png'']
     = PStr ''unknown_t1''"
  by (simp add: resolve_member_id_v3_def spec_resolve_owner_def follows_convention_def
      item_get_def Let_def)

text \<open>
  Claim C7, amended. migrate\_fixed\_v3 resolves the owner in this order: the member
  field whenever it is present and not null, the empty string included; otherwise, when
  the signature key is a non-empty string that contains \<open>signatures/\<close> anywhere, the
  second segment of the key split at \<open>/\<close>, which for a key
  \<open>signatures/<owner_id>/<blob_name>\<close> with no \<open>/\<close> in the owner id is the owner id;
  otherwise, when there is no signature key or it does not contain \<open>signatures/\<close>,
  \<open>unknown_\<close> followed by the first eight characters of the transaction id. The
  migrated item carries the resolved owner as its member id. In particular the item
  with no member field and signature key \<open>signatures/00042/sig.png\<close> migrates with
  owner \<open>00042\<close>.
\<close>

theorem owner_resolution_v3:
  "(item_get it ''member_id'' \<noteq> PNone \<longrightarrow>
      resolve_member_id_v3 it = Inr (item_get it ''member_id''))
   \<and> (item_get it ''member_id'' = PNone \<and> item_get it ''signature_s3_key'' = PStr k
        \<and> k \<noteq> [] \<and> str_contains ''signatures/'' k \<longrightarrow>
      resolve_member_id_v3 it = Inr (PStr (str_split CHR ''/'' k ! 1)))
   \<and> (item_get it ''member_id'' = PNone
        \<and> item_get it ''signature_s3_key'' = PStr (''signatures/'' @ owner @ ''/'' @ blob)
        \<and> CHR ''/'' \<notin> set owner \<longrightarrow>
      resolve_member_id_v3 it = Inr (PStr owner))
   \<and> (item_get it ''member_id'' = PNone
        \<and> (item_get it ''signature_s3_key'' = PNone
            \<or> item_get it ''signature_s3_key'' = PStr k
               \<and> (k = [] \<or> \<not> str_contains ''signatures/'' k))
        \<and> item_get it ''transaction_id'' = PStr t \<longrightarrow>
      resolve_member_id_v3 it = Inr (PStr (''unknown_'' @ take 8 t)))
   \<and> (resolve_member_id_v3 it = Inr m \<and> migrate_item_v3 py e it = Inr x \<longrightarrow>
      x ''member_id'' = Some (PStr (py_str py m)))"
proof -
  have a: "item_get it ''member_id'' \<noteq> PNone \<longrightarrow>
      resolve_member_id_v3 it = Inr (item_get it ''member_id'')"
    by (simp add: resolve_member_id_v3_def Let_def)
  have b: "resolve_member_id_v3 it = Inr (PStr (str_split CHR ''/'' k' ! 1))"
    if "item_get it ''member_id'' = PNone" "item_get it ''signature_s3_key'' = PStr k'"
      "k' \<noteq> []" "str_contains ''signatures/'' k'" for k'
  proof -
    from str_contains_set [OF that(4)] have "CHR ''/'' \<in> set k'" by simp
    from str_split_two [OF this] that show ?thesis
      by (simp add: resolve_member_id_v3_def Let_def)
  qed
  have c: "resolve_member_id_v3 it = Inr (PStr owner)"
    if m: "item_get it ''member_id'' = PNone"
      and s: "item_get it ''signature_s3_key'' = PStr (''signatures/'' @ owner @ ''/'' @ blob)"
      and o: "CHR ''/'' \<notin> set owner"
  proof -
    have "str_contains ''signatures/'' (''signatures/'' @ (owner @ ''/'' @ blob))"
      by (rule str_contains_prefix)
    hence "str_contains ''signatures/'' (''signatures/'' @ owner @ ''/'' @ blob)" by simp
    from b [OF m s _ this] signatures_prefix_split [OF o, of blob] show ?thesis by simp
  qed
  have d: "item_get it ''member_id'' = PNone
        \<and> (item_get it ''signature_s3_key'' = PNone
            \<or> item_get it ''signature_s3_key'' = PStr k
               \<and> (k = [] \<or> \<not> str_contains ''signatures/'' k))
        \<and> item_get it ''transaction_id'' = PStr t \<longrightarrow>
      resolve_member_id_v3 it = Inr (PStr (''unknown_'' @ take 8 t))"
    by (auto simp: resolve_member_id_v3_def unknown_member_id_def Let_def)
  have e: "resolve_member_id_v3 it = Inr m \<and> migrate_item_v3 py e it = Inr x \<longrightarrow>
      x ''member_id'' = Some (PStr (py_str py m))"
    by (auto simp: migrate_item_v3_def new_item_def strip_none_def Let_def split: sum.splits)
  from a b c d e show ?thesis by blast
qed

theorem owner_resolution_v3_witness:
  "item_get legacy_plain ''member_id'' \<noteq> PNone
   \<and> resolve_member_id_v3 legacy_plain = Inr (PStr ''00011'')
   \<and> item_get legacy_recover ''member_id'' = PNone
   \<and> item_get legacy_recover ''signature_s3_key'' = PStr ''signatures/00042/sig.png''
   \<and> CHR ''/'' \<notin> set ''00042''
   \<and> str_contains ''signatures/'' ''signatures/00042/sig.png''
   \<and> resolve_member_id_v3 legacy_recover = Inr (PStr ''00042'')
   \<and> map_sum id (\<lambda>x. (x ''member_id'', x ''transaction_id'', x ''amount''))
         (migrate_item_v3 ex_python ex_env legacy_recover)
       = Inr (Some (PStr ''00042''), Some (PStr ''t1''), Some (PNum (- 50)))
   \<and> item_get legacy_bare ''member_id'' = PNone
   \<and> item_get legacy_bare ''signature_s3_key'' = PNone
   \<and> item_get legacy_bare ''transaction_id'' = PStr ''abcdef12-3456''
   \<and> resolve_member_id_v3 legacy_bare = Inr (PStr ''unknown_abcdef12'')"
proof -
  have p: "item_get legacy_plain ''member_id'' = PStr ''00011''"
    by (simp add: legacy_plain_def item_get_def)
  have r1: "item_get legacy_recover ''member_id'' = PNone"
    by (simp add: legacy_recover_def item_get_def)
  have r2: "item_get legacy_recover ''signature_s3_key''
              = PStr (''signatures/'' @ ''00042'' @ ''/'' @ ''sig.png'')"
    by (simp add: legacy_recover_def item_get_def)
  have r3: "CHR ''/'' \<notin> set ''00042''"
    by simp
  have r4: "str_contains ''signatures/'' ''signatures/00042/sig.png''"
    by simp
  have b1: "item_get legacy_bare ''member_id'' = PNone"
    by (simp add: legacy_bare_def item_get_def)
  have b2: "item_get legacy_bare ''signature_s3_key'' = PNone"
    by (simp add: legacy_bare_def item_get_def)
  have b3: "item_get legacy_bare ''transaction_id'' = PStr ''abcdef12-3456''"
    by (simp add: legacy_bare_def item_get_def)
  have m: "map_sum id (\<lambda>x. (x ''member_id'', x ''transaction_id'', x ''amount''))
         (migrate_item_v3 ex_python ex_env legacy_recover)
       = Inr (Some (PStr ''00042''), Some (PStr ''t1''), Some (PNum (- 50)))"
    by (simp add: migrate_item_v3_def resolve_member_id_v3_def new_item_def item_get_def
        legacy_recover_def ex_env_def ex_python_def strip_none_def Let_def)
  have c1: "resolve_member_id_v3 legacy_plain = Inr (PStr ''00011'')"
    using owner_resolution_v3 [where it = legacy_plain] p by simp
  have c2: "resolve_member_id_v3 legacy_recover = Inr (PStr ''00042'')"
    using owner_resolution_v3 [where it = legacy_recover and owner = "''00042''"
        and blob = "''sig.png''"] r1 r2 r3 by blast
  have c3: "resolve_member_id_v3 legacy_bare = Inr (PStr ''unknown_abcdef12'')"
    using owner_resolution_v3 [where it = legacy_bare and t = "''abcdef12-3456''"] b1 b2 b3
    by simp
  from p r1 r2 r3 r4 m b1 b2 b3 c1 c2 c3 show ?thesis by simp
qed

subsection \<open>The v2 variant\<close>

lemma loop_all_errors:
  "\<forall>it \<in> set xs. \<forall>e. \<exists>err. step e it = Inl err \<Longrightarrow>
     migrate_loop step envs i xs (t, m, r) = (t, m, r + length xs)"
proof (induction xs arbitrary: i r)
  case Nil
  then show ?case by simp
next
  case (Cons x xs)
  from Cons.prems have "\<exists>err. step (envs i) x = Inl err" by simp
  then obtain err where "step (envs i) x = Inl err" by blast
  moreover have "migrate_loop step envs (Suc i) xs (t, m, Suc r) = (t, m, Suc r + length xs)"
    using Cons.prems by (intro Cons.IH) simp
  ultimately show ?case by simp
qed

lemma loop_migrated_bound:
  "\<forall>it \<in> set xs. \<forall>e x. step e it = Inr x \<longrightarrow> P it \<Longrightarrow>
     fst (snd (migrate_loop step envs i xs (t, m, r))) \<le> m + length (filter P xs)"
proof (induction xs arbitrary: i t m r)
  case Nil
  then show ?case by simp
next
  case (Cons x xs)
  have rest: "\<forall>it \<in> set xs. \<forall>e x. step e it = Inr x \<longrightarrow> P it"
    using Cons.prems by simp
  show ?case
  proof (cases "step (envs i) x")
    case (Inl a)
    from Cons.IH [OF rest, of "Suc i" t m "Suc r"] Inl show ?thesis by simp
  next
    case (Inr y)
    with Cons.prems have px: "P x" by auto
    show ?thesis
    proof (cases "tx_put_ok (envs i)")
      case True
      from Cons.IH [OF rest, of "Suc i" "put_item y t" "Suc m" r] Inr True px
      show ?thesis by simp
    next
      case False
      from Cons.IH [OF rest, of "Suc i" t m "Suc r"] Inr False px
      show ?thesis by simp
    qed
  qed
qed

lemma v2_needs_membe: "migrate_item_v2 py e it = Inr x \<Longrightarrow> it ''membe...'' \<noteq> None"
  by (cases "it ''membe...''") (auto simp: migrate_item_v2_def item_get_def Let_def split: if_splits)

text \<open>
  Claim C9. migrate\_fixed\_v2 reads the owner from the attribute named \<open>membe...\<close>.
  An item without an attribute of that name is skipped with the missing-owner error,
  whatever else it holds, a member id included. A run over a collection in which no item
  has the attribute leaves the new table as it was, migrates nothing and counts every
  item as an error; in any run the number of migrated items is at most the number of
  items that have the attribute.
\<close>

theorem v2_skips_items_without_membe:
  "(it ''membe...'' = None \<longrightarrow> migrate_item_v2 py e it = Inl MissingMemberId)
   \<and> ((\<forall>it \<in> set old_items. it ''membe...'' = None) \<longrightarrow>
        migrate_transactions_v2 py envs old_items new_table
          = (new_table, 0, length old_items))
   \<and> fst (snd (migrate_transactions_v2 py envs old_items new_table))
        \<le> length (filter (\<lambda>it. it ''membe...'' \<noteq> None) old_items)"
proof -
  have a: "migrate_item_v2 py e' it' = Inl MissingMemberId" if "it' ''membe...'' = None"
    for e' it'
    using that by (simp add: migrate_item_v2_def item_get_def)
  have b: "migrate_transactions_v2 py envs old_items new_table
          = (new_table, 0, length old_items)"
    if "\<forall>it \<in> set old_items. it ''membe...'' = None"
  proof -
    from that a have "\<forall>it \<in> set old_items. \<forall>e. \<exists>err. migrate_item_v2 py e it = Inl err"
      by blast
    from loop_all_errors [OF this] show ?thesis
      by (simp add: migrate_transactions_v2_def)
  qed
  have c: "fst (snd (migrate_transactions_v2 py envs old_items new_table))
        \<le> length (filter (\<lambda>it. it ''membe...'' \<noteq> None) old_items)"
    using loop_migrated_bound [of old_items "migrate_item_v2 py"
        "\<lambda>it. it ''membe...'' \<noteq> None" envs 0 new_table 0 0] v2_needs_membe
    by (auto simp: migrate_transactions_v2_def)
  from a b c show ?thesis by blast
qed

theorem v2_skips_items_without_membe_witness:
  "legacy_plain ''membe...'' = None \<and> legacy_recover ''membe...'' = None
   \<and> legacy_plain ''member_id'' = Some (PStr ''00011'')
   \<and> migrate_item_v2 ex_python ex_env legacy_plain = Inl MissingMemberId
   \<and> migrate_transactions_v2 ex_python (\<lambda>i. ex_env) [legacy_plain, legacy_recover] new_schema_table
       = (new_schema_table, 0, 2)"
proof -
  have h1: "legacy_plain ''membe...'' = None" by (simp add: legacy_plain_def)
  have h2: "legacy_recover ''membe...'' = None" by (simp add: legacy_recover_def)
  have h3: "legacy_plain ''member_id'' = Some (PStr ''00011'')" by (simp add: legacy_plain_def)
  from v2_skips_items_without_membe [of legacy_plain ex_python ex_env
      "[legacy_plain, legacy_recover]" "\<lambda>i. ex_env" new_schema_table] h1 h2 h3
  show ?thesis by simp
qed

section \<open>The balance invariant\<close>

text \<open>
  Claim C1, evaluated on the end-to-end scenario of the specification, every store call
  able to succeed. Creating member \<open>M1\<close> with initial balance 100 raises
  \<open>TypeError\<close> in \<open>add_member\<close> and stores nothing. In the session where \<open>M1\<close>
  is stored with balance 100 and its initial transaction, and is selected, the charge of
  30 raises \<open>TypeError\<close> in \<open>add_transaction\<close>: the balance stays 100 and the ledger
  of \<open>M1\<close> stays the one transaction of 100, where the claim has balance and ledger
  at 70; only the signature blob has been stored; the sequence of submissions yields no
  final session.
\<close>

theorem ledger_scenario_raises:
  "add_member_form fresh_session ex_env ''M1'' ''Ann'' ''2024-01-01'' 100
     = (Inl TypeError, fresh_session)
   \<and> fst (transaction_form m1_session (ex_env\<lparr>uuid := ''u2''\<rparr>) Charge 30 ''massage'' True)
       = Inl TypeError
   \<and> map_option balance
        (the (members_table
           (snd (transaction_form m1_session (ex_env\<lparr>uuid := ''u2''\<rparr>) Charge 30 ''massage'' True)))
         ''M1'') = Some 100
   \<and> map amount_of
        (query_member_transactions
           (snd (transaction_form m1_session (ex_env\<lparr>uuid := ''u2''\<rparr>) Charge 30 ''massage'' True))
           ex_env ''M1'') = [100]
   \<and> map_option (\<lambda>tt. ledger_sum tt ''M1'')
        (transactions_table
           (snd (transaction_form m1_session (ex_env\<lparr>uuid := ''u2''\<rparr>) Charge 30 ''massage'' True)))
       = Some 100
   \<and> blobs (snd (transaction_form m1_session (ex_env\<lparr>uuid := ''u2''\<rparr>) Charge 30 ''massage'' True))
       = [''signatures/M1/b1.png'']
   \<and> apply_transactions m1_session [debit_submission] = None"
  by (simp add: add_member_form_def add_member_def fresh_session_def ex_env_def get_member_def
      transaction_form_def process_transaction_def form_amount_def add_transaction_def
      upload_signature_def m1_session_def m1_member_def m1_ledger_def top_up_def
      debit_submission_def query_member_transactions_def get_member_transactions_def
      amount_of_def owned_by_def ledger_sum_def Let_def)

section \<open>Null attributes\<close>

lemma strip_none_no_null: "strip_none d k \<noteq> Some PNone"
  by (simp add: strip_none_def split: option.splits pyval.splits)

lemma new_item_no_null: "new_item py e m it = Inr x \<Longrightarrow> x k \<noteq> Some PNone"
  by (auto simp: new_item_def Let_def strip_none_no_null split: sum.splits)

text \<open>
  Claim C10. When the write of \<open>add_transaction\<close> succeeds, the table holds an item
  with the new transaction id whose \<open>signature_s3_key\<close> and \<open>service_notes\<close>
  attributes are present; they hold the caller's values, and the null value where the
  caller passed none. An item built by either migration script has no attribute that
  holds null.
\<close>

theorem live_write_persists_nulls:
  "(\<exists>tbl'. add_transaction True tid ts tbl mid (Dec amount) signature_key service_notes
              = Inr (Some tid, tbl')
       \<and> (\<exists>x \<in> set (items tbl').
             x ''transaction_id'' = Some (PStr tid)
             \<and> x ''signature_s3_key'' = Some (opt_str signature_key)
             \<and> x ''service_notes'' = Some (opt_str service_notes)))
   \<and> opt_str None = PNone
   \<and> (migrate_item_v3 py e it = Inr y \<longrightarrow> y k \<noteq> Some PNone)
   \<and> (migrate_item_v2 py e it = Inr y \<longrightarrow> y k \<noteq> Some PNone)"
proof -
  let ?x = "[''transaction_id'' \<mapsto> PStr tid, ''member_id'' \<mapsto> PStr mid,
             ''amount'' \<mapsto> PNum amount, ''timestamp'' \<mapsto> PStr ts,
             ''signature_s3_key'' \<mapsto> opt_str signature_key,
             ''service_notes'' \<mapsto> opt_str service_notes]"
  have w: "add_transaction True tid ts tbl mid (Dec amount) signature_key service_notes
             = Inr (Some tid, put_item ?x tbl)"
    by (simp add: add_transaction_def)
  have "?x \<in> set (items (put_item ?x tbl))"
    by (simp add: put_item_def upsert_mem)
  moreover have "?x ''transaction_id'' = Some (PStr tid)" by simp
  moreover have "?x ''signature_s3_key'' = Some (opt_str signature_key)" by simp
  moreover have "?x ''service_notes'' = Some (opt_str service_notes)" by simp
  ultimately have "\<exists>x \<in> set (items (put_item ?x tbl)).
             x ''transaction_id'' = Some (PStr tid)
             \<and> x ''signature_s3_key'' = Some (opt_str signature_key)
             \<and> x ''service_notes'' = Some (opt_str service_notes)"
    by blast
  with w have live: "\<exists>tbl'. add_transaction True tid ts tbl mid (Dec amount) signature_key
                              service_notes = Inr (Some tid, tbl')
       \<and> (\<exists>x \<in> set (items tbl').
             x ''transaction_id'' = Some (PStr tid)
             \<and> x ''signature_s3_key'' = Some (opt_str signature_key)
             \<and> x ''service_notes'' = Some (opt_str service_notes))"
    by blast
  have v3: "migrate_item_v3 py e it = Inr y \<longrightarrow> y k \<noteq> Some PNone"
    by (auto simp: migrate_item_v3_def new_item_no_null split: sum.splits)
  have v2: "migrate_item_v2 py e it = Inr y \<longrightarrow> y k \<noteq> Some PNone"
    by (auto simp: migrate_item_v2_def Let_def new_item_no_null split: if_splits)
  from live v3 v2 show ?thesis by simp
qed

theorem live_write_persists_nulls_witness:
  "map_sum id (\<lambda>r. (fst r, map (\<lambda>x. (x ''transaction_id'', x ''signature_s3_key'', x ''service_notes''))
                             (items (snd r))))
       (add_transaction True ''u1'' ''2024-01-01T00:00:01'' empty_ledger ''M1'' (Dec 100)
          None None)
     = Inr (Some ''u1'', [(Some (PStr ''u1''), Some PNone, Some PNone)])
   \<and> (\<exists>y. migrate_item_v3 ex_python ex_env legacy_plain = Inr y
          \<and> y ''signature_s3_key'' \<noteq> Some PNone \<and> y ''signature_s3_key'' = None)
   \<and> (\<exists>y. migrate_item_v2 ex_python ex_env legacy_v2 = Inr y
          \<and> y ''service_notes'' \<noteq> Some PNone \<and> y ''service_notes'' = None)"
proof -
  have a: "map_sum id (\<lambda>r. (fst r, map (\<lambda>x. (x ''transaction_id'', x ''signature_s3_key'', x ''service_notes''))
                             (items (snd r))))
       (add_transaction True ''u1'' ''2024-01-01T00:00:01'' empty_ledger ''M1'' (Dec 100)
          None None)
     = Inr (Some ''u1'', [(Some (PStr ''u1''), Some PNone, Some PNone)])"
    by (simp add: add_transaction_def put_item_def empty_ledger_def)
  obtain y3 where y3: "migrate_item_v3 ex_python ex_env legacy_plain = Inr y3"
    "y3 ''signature_s3_key'' = None"
    by (simp add: migrate_item_v3_def resolve_member_id_v3_def new_item_def item_get_def
        legacy_plain_def ex_env_def ex_python_def strip_none_def Let_def)
  obtain y2 where y2: "migrate_item_v2 ex_python ex_env legacy_v2 = Inr y2"
    "y2 ''service_notes'' = None"
    by (simp add: migrate_item_v2_def new_item_def item_get_def
        legacy_v2_def ex_env_def ex_python_def strip_none_def Let_def)
  from live_write_persists_nulls [where py = ex_python and e = ex_env and it = legacy_plain
      and y = y3 and k = "''signature_s3_key''"] y3
  have b: "y3 ''signature_s3_key'' \<noteq> Some PNone" by simp
  from y2 have c: "y2 ''service_notes'' \<noteq> Some PNone" by simp
  from a y3 y2 b c show ?thesis by blast
qed

end
